theory Spec2Isabelle
  imports Main "HOL-Library.AList"
begin

section \<open>TraceAnything: a model of the shimming engine of trace-anything.js\<close>

text \<open>
  The engine works on live JavaScript objects through reflection, so the model
  has an explicit world: a heap of objects with ordered property tables,
  property descriptors and prototype links; closures created by the engine as
  a datatype of captured variables; the logger as a stream of emitted records;
  the two process-wide maps of the class. Scope of the model:
  \<^item> code of the application (original methods, accessors, constructors,
    listeners) is leaf code: a function of the heap, the receiver and the
    arguments that returns or throws and leaves a new heap. It does not call
    functions created by the engine.
  \<^item> \<open>options\<close> is the merged configuration (\<open>Object.assign\<close> over the
    defaults); \<open>options.logger(log)\<close> appends the record to \<open>logs\<close>.
  \<^item> \<open>Date.now()\<close> answers with the next entry of an arbitrary sequence.
  \<^item> objects are extensible; numbers are integers; a class name that is not
    a string is read through \<open>to_str\<close>; property names are kept in
    insertion order; keys inherited by an options object from
    \<open>Object.prototype\<close> are not looked at.
  \<^item> a computation that runs out of fuel has the outcome \<open>Diverge\<close>; no
    \<open>try\<close> of the source catches it.
\<close>

subsection \<open>Values, options, log records\<close>

type_synonym addr = nat

datatype val =
    Undefined
  | Null
  | Bool bool
  | Num int
  | Str string
  | Ref addr
  | TypeError
  | ObjLit "(string \<times> val) list"

text \<open>\<open>TypeError\<close> stands for an error raised by the language itself;
  \<open>ObjLit\<close> for a fresh object literal that only a log record refers to.\<close>

fun truthy :: "val \<Rightarrow> bool" where
  "truthy Undefined = False"
| "truthy Null = False"
| "truthy (Bool b) = b"
| "truthy (Num n) = (n \<noteq> 0)"
| "truthy (Str s) = (s \<noteq> [])"
| "truthy (Ref a) = True"
| "truthy TypeError = True"
| "truthy (ObjLit fs) = True"

text \<open>\<open>v == null\<close>\<close>

definition is_nullish :: "val \<Rightarrow> bool" where
  "is_nullish v = (v = Undefined \<or> v = Null)"

datatype propnames = OneName string | ManyNames "string list"

record options =
  inPlace :: bool
  methods :: bool
  properties :: bool
  treatPromisePropertiesAsEvents :: bool
  extraProperties :: "string list"
  skipProperties :: "string list"
  events :: bool
  extraEvents :: "string list"
  skipEvents :: "string list"
  eventProperties :: "(string \<times> propnames) list"
  exploreResultFields :: "string list"
  logAsyncResultsImmediately :: bool
  idProperty :: "string option"

definition defaultOptions :: options where
  "defaultOptions = \<lparr> inPlace = True, methods = True, properties = True,
     treatPromisePropertiesAsEvents = True, extraProperties = [], skipProperties = [],
     events = True, extraEvents = [], skipEvents = [], eventProperties = [],
     exploreResultFields = [], logAsyncResultsImmediately = True,
     idProperty = Some ''id'' \<rparr>"

datatype logtype = Constructor | Method | Getter | Setter | Event | Warning

text \<open>A field of a log object that was never set, or was deleted, is \<open>None\<close>.\<close>

record log =
  l_timestamp :: int
  l_type :: logtype
  l_duration :: "int option"
  l_instance :: "val option"
  l_instanceId :: "val option"
  l_className :: "string option"
  l_methodName :: "string option"
  l_memberName :: "string option"
  l_eventName :: "val option"
  l_event :: "val option"
  l_args :: "val list option"
  l_threw :: "val option"
  l_result :: "val option"
  l_value :: "val option"
  l_message :: "string option"

definition new_log :: "int \<Rightarrow> logtype \<Rightarrow> log" where
  "new_log t ty = \<lparr> l_timestamp = t, l_type = ty, l_duration = None, l_instance = None,
     l_instanceId = None, l_className = None, l_methodName = None, l_memberName = None,
     l_eventName = None, l_event = None, l_args = None, l_threw = None, l_result = None,
     l_value = None, l_message = None \<rparr>"

subsection \<open>Closures, objects, the world\<close>

text \<open>
  Every function the engine creates is a constructor of \<open>closure\<close> holding the
  variables it captures, in the order of the comment. \<open>Native f\<close> is code of
  the application, \<open>PromiseThen\<close> the built-in \<open>Promise.prototype.then\<close>.
\<close>

datatype closure =
    Native nat
  | Noop
  | PromiseThen
  | TracedCtor val options
      \<comment> \<open>traceClass: ctor, options\<close>
  | MethodShim val string string options
      \<comment> \<open>_shimMethod: originalMethod, k, className, options\<close>
  | ThenResolved log options addr
      \<comment> \<open>_shimMethod, first callback of then: log, options, promiseShim\<close>
  | ThenRejected log options addr
      \<comment> \<open>_shimMethod, second callback of then: log, options, promiseShim\<close>
  | ValueGetter nat
      \<comment> \<open>_shimProperty: the cell of propertyValue\<close>
  | ValueSetter nat val string string options
      \<comment> \<open>_shimProperty: the cell of propertyValue, traced, k, className, options\<close>
  | AccessorGetter val val string string options
      \<comment> \<open>_shimProperty: originalDescriptor.get, traced, k, className, options\<close>
  | AccessorSetter val val string string options
      \<comment> \<open>_shimProperty: originalDescriptor.set, traced, k, className, options\<close>
  | PromisePropResolved val string string options
      \<comment> \<open>_shimPromiseProperty: traced, k, className, options\<close>
  | PromisePropRejected val string string options
  | ListenerPropGetter val
      \<comment> \<open>_shimEventListenerProperty: originalDescriptor.get\<close>
  | ListenerPropSetter val val string string options
      \<comment> \<open>_shimEventListenerProperty: originalDescriptor.set, object, className, eventName, options\<close>
  | DynAddEventListener val val string options
      \<comment> \<open>_shimEventListenersDynamically: originalMethod, traced, className, options\<close>
  | ListenerShim val val string val options "propnames option"
      \<comment> \<open>_shimEventListener: traced, listener, className, eventName, options,
          correspondingPropertyName\<close>

datatype pstate = Pending | Locked val | Fulfilled val | Rejected val

datatype kind =
    Plain
  | Function closure
  | Promise pstate "(val \<times> val) list"
  | SetObj "val list"

text \<open>A property: \<open>Data value writable enumerable configurable\<close> or
  \<open>Accessor get set enumerable configurable\<close> (an absent accessor function is
  \<open>Undefined\<close>).\<close>

datatype property =
    Data val bool bool bool
  | Accessor val val bool bool

record obj =
  props :: "(string \<times> property) list"
  proto :: "addr option"
  kind :: kind

datatype 'a outcome = Ret 'a | Throw val | Diverge

record state =
  heap :: "obj list"
  cells :: "val list"
  logs :: "log list"
  nextGeneratedId :: "string \<Rightarrow> nat option"
  shimmedClasses :: "val \<Rightarrow> options option"
  ticks :: nat
  jobs :: "(val \<times> val \<times> val list) list"

text \<open>
  \<open>heap\<close>: the objects, an address is an index. \<open>cells\<close>: the local variables
  captured by closures (\<open>propertyValue\<close>). \<open>logs\<close>: what the logger received.
  \<open>nextGeneratedId\<close>, \<open>shimmedClasses\<close>: the static maps of the class.
  \<open>ticks\<close>: the calls of \<open>Date.now()\<close> so far. \<open>jobs\<close>: promise reactions
  waiting to run (function, receiver, arguments).
\<close>

record env =
  native :: "nat \<Rightarrow> obj list \<Rightarrow> val \<Rightarrow> val list \<Rightarrow> val outcome \<times> obj list"
  clock :: "nat \<Rightarrow> int"
  objectProto :: addr
  functionProto :: addr
  numberProto :: addr
  stringProto :: addr
  booleanProto :: addr
  promiseProto :: addr

subsection \<open>Computations\<close>

type_synonym 'a M = "state \<Rightarrow> 'a outcome \<times> state"

definition ret :: "'a \<Rightarrow> 'a M" where
  "ret x = (\<lambda>s. (Ret x, s))"

definition throw :: "val \<Rightarrow> 'a M" where
  "throw e = (\<lambda>s. (Throw e, s))"

definition bind :: "'a M \<Rightarrow> ('a \<Rightarrow> 'b M) \<Rightarrow> 'b M" where
  "bind m f = (\<lambda>s. case m s of
       (Ret x, s') \<Rightarrow> f x s'
     | (Throw e, s') \<Rightarrow> (Throw e, s')
     | (Diverge, s') \<Rightarrow> (Diverge, s'))"

text \<open>\<open>try { m } catch (error) { h error }\<close>\<close>

definition try_catch :: "'a M \<Rightarrow> (val \<Rightarrow> 'a M) \<Rightarrow> 'a M" where
  "try_catch m h = (\<lambda>s. case m s of
       (Throw e, s') \<Rightarrow> h e s'
     | r \<Rightarrow> r)"

definition gets :: "(state \<Rightarrow> 'a) \<Rightarrow> 'a M" where
  "gets f = (\<lambda>s. (Ret (f s), s))"

definition modify :: "(state \<Rightarrow> state) \<Rightarrow> unit M" where
  "modify f = (\<lambda>s. (Ret (), f s))"

primrec forEach :: "'a list \<Rightarrow> ('a \<Rightarrow> unit M) \<Rightarrow> unit M" where
  "forEach [] f = ret ()"
| "forEach (x # xs) f = bind (f x) (\<lambda>_. forEach xs f)"

text \<open>\<open>Date.now()\<close>\<close>

definition dateNow :: "env \<Rightarrow> int M" where
  "dateNow E = (\<lambda>s. (Ret (clock E (ticks s)), s\<lparr>ticks := Suc (ticks s)\<rparr>))"

text \<open>\<open>options.logger(log)\<close>\<close>

definition logger :: "log \<Rightarrow> unit M" where
  "logger l = modify (\<lambda>s. s\<lparr>logs := logs s @ [l]\<rparr>)"

text \<open>What the recursion of the interpreter is asked for: a call of a
  function value, and \<open>_shimReturnValue\<close>.\<close>

datatype op =
    OpCall val val "val list"
  | OpShimReturnValue val options

type_synonym recur = "op \<Rightarrow> val M"

subsection \<open>Objects and properties\<close>

definition obj_at :: "obj list \<Rightarrow> addr \<Rightarrow> obj option" where
  "obj_at h a = (if a < length h then Some (h ! a) else None)"

definition alloc :: "obj \<Rightarrow> addr M" where
  "alloc ob = (\<lambda>s. (Ret (length (heap s)), s\<lparr>heap := heap s @ [ob]\<rparr>))"

definition alloc_function :: "env \<Rightarrow> closure \<Rightarrow> val M" where
  "alloc_function E c =
     bind (alloc \<lparr> props = [], proto = Some (functionProto E), kind = Function c \<rparr>)
       (\<lambda>a. ret (Ref a))"

definition alloc_cell :: "val \<Rightarrow> nat M" where
  "alloc_cell v = (\<lambda>s. (Ret (length (cells s)), s\<lparr>cells := cells s @ [v]\<rparr>))"

definition closure_of :: "obj list \<Rightarrow> val \<Rightarrow> closure option" where
  "closure_of h v = (case v of
       Ref a \<Rightarrow> (case obj_at h a of
           Some ob \<Rightarrow> (case kind ob of Function c \<Rightarrow> Some c | _ \<Rightarrow> None)
         | None \<Rightarrow> None)
     | _ \<Rightarrow> None)"

text \<open>\<open>typeof v == 'function'\<close>, \<open>v instanceof Function\<close>\<close>

definition is_callable :: "obj list \<Rightarrow> val \<Rightarrow> bool" where
  "is_callable h v = (closure_of h v \<noteq> None)"

definition is_object :: "val \<Rightarrow> bool" where
  "is_object v = (case v of Ref a \<Rightarrow> True | TypeError \<Rightarrow> True | ObjLit fs \<Rightarrow> True | _ \<Rightarrow> False)"

text \<open>The heap object a property lookup on \<open>v\<close> walks from: the object itself,
  the prototype of a primitive's wrapper, \<open>Object.prototype\<close> after the own
  fields of an object literal; none for \<open>undefined\<close> and \<open>null\<close>.\<close>

definition base_of :: "env \<Rightarrow> val \<Rightarrow> addr option" where
  "base_of E v = (case v of
       Ref a \<Rightarrow> Some a
     | Bool b \<Rightarrow> Some (booleanProto E)
     | Num n \<Rightarrow> Some (numberProto E)
     | Str s \<Rightarrow> Some (stringProto E)
     | TypeError \<Rightarrow> Some (objectProto E)
     | ObjLit fs \<Rightarrow> Some (objectProto E)
     | _ \<Rightarrow> None)"

primrec lookup_chain :: "nat \<Rightarrow> obj list \<Rightarrow> addr \<Rightarrow> string \<Rightarrow> property option" where
  "lookup_chain 0 h a k = None"
| "lookup_chain (Suc n) h a k = (case obj_at h a of
       None \<Rightarrow> None
     | Some ob \<Rightarrow> (case map_of (props ob) k of
           Some p \<Rightarrow> Some p
         | None \<Rightarrow> (case proto ob of
               None \<Rightarrow> None
             | Some a' \<Rightarrow> lookup_chain n h a' k)))"

text \<open>The property \<open>k\<close> as found on the object or along its prototype chain. A
  prototype chain has no cycle, so it is no longer than the heap.\<close>

definition find_prop :: "obj list \<Rightarrow> addr \<Rightarrow> string \<Rightarrow> property option" where
  "find_prop h a k = lookup_chain (length h) h a k"

definition find_on :: "env \<Rightarrow> obj list \<Rightarrow> val \<Rightarrow> string \<Rightarrow> property option" where
  "find_on E h v k = (case v of
       ObjLit fs \<Rightarrow> (case map_of fs k of
           Some x \<Rightarrow> Some (Data x True True True)
         | None \<Rightarrow> find_prop h (objectProto E) k)
     | _ \<Rightarrow> (case base_of E v of Some a \<Rightarrow> find_prop h a k | None \<Rightarrow> None))"

text \<open>\<open>_getDescriptor(object, k)\<close>: the loop \<open>while (object)\<close> does not start
  on a falsy value.\<close>

definition getDescriptor :: "env \<Rightarrow> obj list \<Rightarrow> val \<Rightarrow> string \<Rightarrow> property option" where
  "getDescriptor E h v k = (if truthy v then find_on E h v k else None)"

text \<open>\<open>v[k]\<close>\<close>

definition getProp :: "env \<Rightarrow> recur \<Rightarrow> val \<Rightarrow> string \<Rightarrow> val M" where
  "getProp E rec v k =
     (if is_nullish v then throw TypeError
      else bind (gets (\<lambda>s. find_on E (heap s) v k)) (\<lambda>p. case p of
           None \<Rightarrow> ret Undefined
         | Some (Data x w e c) \<Rightarrow> ret x
         | Some (Accessor g st e c) \<Rightarrow>
             (if g = Undefined then ret Undefined else rec (OpCall g v []))))"

text \<open>\<open>k in v\<close>: a \<open>TypeError\<close> when \<open>v\<close> is not an object.\<close>

definition hasProperty :: "env \<Rightarrow> val \<Rightarrow> string \<Rightarrow> bool M" where
  "hasProperty E v k =
     (if is_object v then gets (\<lambda>s. find_on E (heap s) v k \<noteq> None)
      else throw TypeError)"

definition set_own :: "addr \<Rightarrow> string \<Rightarrow> property \<Rightarrow> unit M" where
  "set_own a k p = modify (\<lambda>s. s\<lparr>heap := (heap s)[a :=
       (heap s ! a)\<lparr>props := AList.update k p (props (heap s ! a))\<rparr>]\<rparr>)"

text \<open>\<open>v[k] = x\<close> in strict code (a class body is strict): a setter found on
  the chain is called; a property that cannot be written throws, and so does
  a write that would create a property on a primitive, on \<open>TypeError\<close> or on
  an object literal of a log record.\<close>

definition setProp :: "env \<Rightarrow> recur \<Rightarrow> val \<Rightarrow> string \<Rightarrow> val \<Rightarrow> unit M" where
  "setProp E rec v k x =
     (if is_nullish v then throw TypeError
      else bind (gets (\<lambda>s. find_on E (heap s) v k)) (\<lambda>p. case p of
           Some (Accessor g st e c) \<Rightarrow>
             (if st = Undefined then throw TypeError
              else bind (rec (OpCall st v [x])) (\<lambda>_. ret ()))
         | Some (Data y w e c) \<Rightarrow>
             (if \<not> w then throw TypeError
              else (case v of
                  Ref a \<Rightarrow> bind (gets (\<lambda>s. obj_at (heap s) a)) (\<lambda>ob. case ob of
                      None \<Rightarrow> throw TypeError
                    | Some ob \<Rightarrow>
                        (if map_of (props ob) k = None then set_own a k (Data x True True True)
                         else set_own a k (Data x w e c)))
                | _ \<Rightarrow> throw TypeError))
         | None \<Rightarrow> (case v of
              Ref a \<Rightarrow> bind (gets (\<lambda>s. obj_at (heap s) a)) (\<lambda>ob. case ob of
                  None \<Rightarrow> throw TypeError
                | Some ob \<Rightarrow> set_own a k (Data x True True True))
            | _ \<Rightarrow> throw TypeError)))"

text \<open>A descriptor object handed to \<open>Object.defineProperty\<close>: a field that the
  object does not have is \<open>None\<close>.\<close>

record pdesc =
  d_value :: "val option"
  d_writable :: "bool option"
  d_get :: "val option"
  d_set :: "val option"
  d_enumerable :: "bool option"
  d_configurable :: "bool option"

definition or_else :: "'a option \<Rightarrow> 'a \<Rightarrow> 'a" where
  "or_else x d = (case x of Some y \<Rightarrow> y | None \<Rightarrow> d)"

definition desc_of_prop :: "property \<Rightarrow> pdesc" where
  "desc_of_prop p = (case p of
       Data x w e c \<Rightarrow> \<lparr> d_value = Some x, d_writable = Some w, d_get = None, d_set = None,
                         d_enumerable = Some e, d_configurable = Some c \<rparr>
     | Accessor g st e c \<Rightarrow> \<lparr> d_value = None, d_writable = None, d_get = Some g, d_set = Some st,
                         d_enumerable = Some e, d_configurable = Some c \<rparr>)"

text \<open>The property that results from a descriptor, on top of the own property
  that is there (which is configurable) or of none.\<close>

definition apply_desc :: "property option \<Rightarrow> pdesc \<Rightarrow> property" where
  "apply_desc old d =
     (let is_acc = (d_get d \<noteq> None \<or> d_set d \<noteq> None);
          is_data = (d_value d \<noteq> None \<or> d_writable d \<noteq> None)
      in case old of
        None \<Rightarrow>
          (if is_acc
           then Accessor (or_else (d_get d) Undefined) (or_else (d_set d) Undefined)
                  (or_else (d_enumerable d) False) (or_else (d_configurable d) False)
           else Data (or_else (d_value d) Undefined) (or_else (d_writable d) False)
                  (or_else (d_enumerable d) False) (or_else (d_configurable d) False))
      | Some (Data x w e c) \<Rightarrow>
          (if is_acc
           then Accessor (or_else (d_get d) Undefined) (or_else (d_set d) Undefined)
                  (or_else (d_enumerable d) e) (or_else (d_configurable d) c)
           else Data (or_else (d_value d) x) (or_else (d_writable d) w)
                  (or_else (d_enumerable d) e) (or_else (d_configurable d) c))
      | Some (Accessor g st e c) \<Rightarrow>
          (if is_data
           then Data (or_else (d_value d) Undefined) (or_else (d_writable d) False)
                  (or_else (d_enumerable d) e) (or_else (d_configurable d) c)
           else Accessor (or_else (d_get d) g) (or_else (d_set d) st)
                  (or_else (d_enumerable d) e) (or_else (d_configurable d) c)))"

definition prop_configurable :: "property \<Rightarrow> bool" where
  "prop_configurable p = (case p of Data x w e c \<Rightarrow> c | Accessor g st e c \<Rightarrow> c)"

definition prop_enumerable :: "property \<Rightarrow> bool" where
  "prop_enumerable p = (case p of Data x w e c \<Rightarrow> e | Accessor g st e c \<Rightarrow> e)"

text \<open>\<open>Object.defineProperty(v, k, d)\<close> for the descriptors of the engine, which
  all ask for \<open>configurable: true\<close>: an own property that is not configurable
  refuses them.\<close>

definition defineProperty :: "val \<Rightarrow> string \<Rightarrow> pdesc \<Rightarrow> unit M" where
  "defineProperty v k d = (case v of
       Ref a \<Rightarrow> bind (gets (\<lambda>s. obj_at (heap s) a)) (\<lambda>ob. case ob of
           None \<Rightarrow> throw TypeError
         | Some ob \<Rightarrow> (case map_of (props ob) k of
               None \<Rightarrow> set_own a k (apply_desc None d)
             | Some p \<Rightarrow>
                 (if prop_configurable p then set_own a k (apply_desc (Some p) d)
                  else throw TypeError)))
     | _ \<Rightarrow> throw TypeError)"

subsection \<open>Strings\<close>

definition digit_char :: "nat \<Rightarrow> char" where
  "digit_char d = char_of (48 + d)"

fun show_nat :: "nat \<Rightarrow> string" where
  "show_nat n = (if n < 10 then [digit_char n] else show_nat (n div 10) @ [digit_char (n mod 10)])"

declare show_nat.simps [simp del]

text \<open>\<open>String(v)\<close> for the values a class name is read from.\<close>

fun to_str :: "val \<Rightarrow> string" where
  "to_str (Str s) = s"
| "to_str Undefined = ''undefined''"
| "to_str Null = ''null''"
| "to_str (Bool b) = (if b then ''true'' else ''false'')"
| "to_str (Num n) = (if n < 0 then ''-'' @ show_nat (nat (- n)) else show_nat (nat n))"
| "to_str (Ref a) = ''[object Object]''"
| "to_str TypeError = ''TypeError''"
| "to_str (ObjLit fs) = ''[object Object]''"

text \<open>\<open>toLowerCase()\<close> on the letters A to Z.\<close>

definition lower_char :: "char \<Rightarrow> char" where
  "lower_char c = (let n = (of_char c :: nat) in if 65 \<le> n \<and> n \<le> 90 then char_of (n + 32) else c)"

definition toLowerCase :: "string \<Rightarrow> string" where
  "toLowerCase s = map lower_char s"

text \<open>\<open>s.replace(/change$/, '')\<close>\<close>

definition strip_change :: "string \<Rightarrow> string" where
  "strip_change s = (if 6 \<le> length s \<and> drop (length s - 6) s = ''change''
     then take (length s - 6) s else s)"

text \<open>\<open>k.startsWith('on')\<close> and \<open>k.replace(/^on/, '')\<close>\<close>

definition startsWith_on :: "string \<Rightarrow> bool" where
  "startsWith_on k = (take 2 k = ''on'')"

definition strip_on :: "string \<Rightarrow> string" where
  "strip_on k = (if startsWith_on k then drop 2 k else k)"

text \<open>The names \<open>for (const i in xs)\<close> visits on an array \<open>xs\<close>: its indices,
  as strings.\<close>

definition array_forIn :: "'a list \<Rightarrow> string list" where
  "array_forIn xs = map show_nat [0..<length xs]"

subsection \<open>Identity\<close>

text \<open>\<open>TraceAnything._nextGeneratedId.get(className) || 1\<close>\<close>

definition next_id :: "(string \<Rightarrow> nat option) \<Rightarrow> string \<Rightarrow> nat" where
  "next_id m className = (case m className of None \<Rightarrow> 1 | Some i \<Rightarrow> if i = 0 then 1 else i)"

text \<open>\<open>options.idProperty && options.idProperty in traced\<close>\<close>

definition idProperty_applies :: "env \<Rightarrow> val \<Rightarrow> options \<Rightarrow> bool M" where
  "idProperty_applies E traced opts = (case idProperty opts of
       None \<Rightarrow> ret False
     | Some p \<Rightarrow> if p = [] then ret False else hasProperty E traced p)"

definition getId :: "env \<Rightarrow> recur \<Rightarrow> val \<Rightarrow> string \<Rightarrow> options \<Rightarrow> val M" where
  "getId E rec traced className opts =
     bind (idProperty_applies E traced opts) (\<lambda>applies.
     if applies then getProp E rec traced (or_else (idProperty opts) [])
     else
       bind (getProp E rec traced ''__TraceAnythingId__'') (\<lambda>cur.
       bind (if is_nullish cur
             then bind (gets (\<lambda>s. next_id (nextGeneratedId s) className)) (\<lambda>n.
                  bind (modify (\<lambda>s. s\<lparr>nextGeneratedId :=
                          (nextGeneratedId s)(className \<mapsto> n + 1)\<rparr>)) (\<lambda>_.
                  setProp E rec traced ''__TraceAnythingId__''
                    (Str (className @ ''_'' @ show_nat n))))
             else ret ()) (\<lambda>_.
       getProp E rec traced ''__TraceAnythingId__'')))"

subsection \<open>Enumeration, prototypes, the set of observed events\<close>

text \<open>\<open>for (const k in v)\<close>: the enumerable names of the object, then those of
  its prototypes that no object before them on the chain has. A primitive
  contributes no names.\<close>

primrec forIn_chain :: "nat \<Rightarrow> obj list \<Rightarrow> addr \<Rightarrow> string list \<Rightarrow> string list" where
  "forIn_chain 0 h a seen = []"
| "forIn_chain (Suc n) h a seen = (case obj_at h a of
       None \<Rightarrow> []
     | Some ob \<Rightarrow>
         map fst (filter (\<lambda>kp. fst kp \<notin> set seen \<and> prop_enumerable (snd kp)) (props ob))
         @ (case proto ob of
              None \<Rightarrow> []
            | Some a' \<Rightarrow> forIn_chain n h a' (seen @ map fst (props ob))))"

definition forIn :: "obj list \<Rightarrow> val \<Rightarrow> string list" where
  "forIn h v = (case v of Ref a \<Rightarrow> forIn_chain (length h) h a [] | _ \<Rightarrow> [])"

text \<open>\<open>Object.getPrototypeOf(v)\<close>\<close>

definition getPrototypeOf :: "env \<Rightarrow> val \<Rightarrow> val M" where
  "getPrototypeOf E v = (case v of
       Ref a \<Rightarrow> bind (gets (\<lambda>s. obj_at (heap s) a)) (\<lambda>ob. case ob of
           None \<Rightarrow> throw TypeError
         | Some ob \<Rightarrow> ret (case proto ob of Some p \<Rightarrow> Ref p | None \<Rightarrow> Null))
     | _ \<Rightarrow> (case base_of E v of Some p \<Rightarrow> ret (Ref p) | None \<Rightarrow> throw TypeError))"

text \<open>\<open>Object.setPrototypeOf(v, p)\<close>: \<open>p\<close> is an object or \<open>null\<close>; nothing
  happens to a primitive \<open>v\<close>.\<close>

definition setPrototypeOf :: "val \<Rightarrow> val \<Rightarrow> unit M" where
  "setPrototypeOf v p =
     (if is_nullish v then throw TypeError
      else (case p of
          Ref q \<Rightarrow> (case v of
              Ref a \<Rightarrow> modify (\<lambda>s. s\<lparr>heap := (heap s)[a := (heap s ! a)\<lparr>proto := Some q\<rparr>]\<rparr>)
            | _ \<Rightarrow> ret ())
        | Null \<Rightarrow> (case v of
              Ref a \<Rightarrow> modify (\<lambda>s. s\<lparr>heap := (heap s)[a := (heap s ! a)\<lparr>proto := None\<rparr>]\<rparr>)
            | _ \<Rightarrow> ret ())
        | _ \<Rightarrow> throw TypeError))"

text \<open>\<open>traced instanceof ctor\<close>, whose value \<open>console.assert\<close> drops: it throws
  when \<open>ctor\<close> is not a function, or when \<open>ctor.prototype\<close> is not an object
  and \<open>traced\<close> is one.\<close>

definition instanceof_check :: "env \<Rightarrow> recur \<Rightarrow> val \<Rightarrow> val \<Rightarrow> unit M" where
  "instanceof_check E rec traced ctor =
     bind (gets (\<lambda>s. is_callable (heap s) ctor)) (\<lambda>c.
     if \<not> c then throw TypeError
     else if \<not> is_object traced then ret ()
     else bind (getProp E rec ctor ''prototype'') (\<lambda>p.
          if is_object p then ret () else throw TypeError))"

definition set_data :: "obj list \<Rightarrow> val \<Rightarrow> val list option" where
  "set_data h v = (case v of
       Ref a \<Rightarrow> (case obj_at h a of
           Some ob \<Rightarrow> (case kind ob of SetObj xs \<Rightarrow> Some xs | _ \<Rightarrow> None)
         | None \<Rightarrow> None)
     | _ \<Rightarrow> None)"

text \<open>\<open>traced.__TraceAnythingEvents__.has(ev)\<close>\<close>

definition events_has :: "env \<Rightarrow> recur \<Rightarrow> val \<Rightarrow> val \<Rightarrow> bool M" where
  "events_has E rec traced ev =
     bind (getProp E rec traced ''__TraceAnythingEvents__'') (\<lambda>sv.
     bind (gets (\<lambda>s. set_data (heap s) sv)) (\<lambda>d. case d of
         None \<Rightarrow> throw TypeError
       | Some xs \<Rightarrow> ret (ev \<in> set xs)))"

text \<open>\<open>traced.__TraceAnythingEvents__.add(ev)\<close>\<close>

definition events_add :: "env \<Rightarrow> recur \<Rightarrow> val \<Rightarrow> val \<Rightarrow> unit M" where
  "events_add E rec traced ev =
     bind (getProp E rec traced ''__TraceAnythingEvents__'') (\<lambda>sv.
     bind (gets (\<lambda>s. set_data (heap s) sv)) (\<lambda>d. case (sv, d) of
         (Ref a, Some xs) \<Rightarrow> modify (\<lambda>s. s\<lparr>heap := (heap s)[a :=
             (heap s ! a)\<lparr>kind := SetObj (if ev \<in> set xs then xs else xs @ [ev])\<rparr>]\<rparr>)
       | _ \<Rightarrow> throw TypeError))"

text \<open>The names in the observed-event set of \<open>traced\<close>, when it has one as a
  plain property.\<close>

definition observed_events :: "env \<Rightarrow> obj list \<Rightarrow> val \<Rightarrow> val list option" where
  "observed_events E h traced = (case find_on E h traced ''__TraceAnythingEvents__'' of
       Some (Data sv w e c) \<Rightarrow> set_data h sv
     | _ \<Rightarrow> None)"

subsection \<open>Event listeners\<close>

text \<open>The first part of \<open>_shimEventListener\<close>: the name of the property that
  goes with the event. An event name that is not a string has no
  \<open>toLowerCase\<close>.\<close>

definition correspondingPropertyName ::
    "obj list \<Rightarrow> val \<Rightarrow> val \<Rightarrow> options \<Rightarrow> propnames option M" where
  "correspondingPropertyName h traced eventName opts =
     (case map_of (eventProperties opts) (to_str eventName) of
        Some pn \<Rightarrow> ret (Some pn)
      | None \<Rightarrow> (case eventName of
          Str e \<Rightarrow> ret (map_option OneName
            (find (\<lambda>k. toLowerCase k = strip_change (toLowerCase e)) (forIn h traced)))
        | _ \<Rightarrow> throw TypeError))"

definition shimEventListener ::
    "env \<Rightarrow> val \<Rightarrow> val \<Rightarrow> string \<Rightarrow> val \<Rightarrow> options \<Rightarrow> val M" where
  "shimEventListener E traced listener className eventName opts =
     bind (gets heap) (\<lambda>h.
     bind (correspondingPropertyName h traced eventName opts) (\<lambda>corr.
     alloc_function E (ListenerShim traced listener className eventName opts corr)))"

text \<open>\<open>_extractProperty(object, name)\<close>\<close>

definition extractProperty :: "env \<Rightarrow> recur \<Rightarrow> val \<Rightarrow> string \<Rightarrow> val M" where
  "extractProperty E rec object name =
     bind (getProp E rec object name) (\<lambda>v.
     bind (gets (\<lambda>s. is_callable (heap s) v)) (\<lambda>c.
     if c then rec (OpCall v object []) else ret v))"

text \<open>The loop \<open>for (const name of correspondingPropertyName)\<close> filling the
  object \<open>log.value\<close>.\<close>

primrec extractAll ::
    "env \<Rightarrow> recur \<Rightarrow> val \<Rightarrow> string list \<Rightarrow> (string \<times> val) list \<Rightarrow> (string \<times> val) list M" where
  "extractAll E rec object [] acc = ret acc"
| "extractAll E rec object (n # ns) acc =
     bind (extractProperty E rec object n) (\<lambda>v.
     extractAll E rec object ns (AList.update n v acc))"

subsection \<open>Installing the shims\<close>

text \<open>\<open>_shimMethod\<close>\<close>

definition shimMethod ::
    "env \<Rightarrow> recur \<Rightarrow> val \<Rightarrow> val \<Rightarrow> string \<Rightarrow> string \<Rightarrow> options \<Rightarrow> unit M" where
  "shimMethod E rec traced object k className opts =
     bind (getProp E rec object k) (\<lambda>originalMethod.
     bind (alloc_function E (MethodShim originalMethod k className opts)) (\<lambda>f.
     bind (setProp E rec traced k f) (\<lambda>_.
     bind (getProp E rec traced k) (\<lambda>f'.
     setProp E rec f' ''__TraceAnything__'' (Bool True)))))"

definition some_if :: "bool \<Rightarrow> 'a M \<Rightarrow> 'a option M" where
  "some_if b m = (if b then bind m (\<lambda>x. ret (Some x)) else ret None)"

text \<open>\<open>_shimProperty\<close>\<close>

definition shimProperty ::
    "env \<Rightarrow> val \<Rightarrow> val \<Rightarrow> string \<Rightarrow> string \<Rightarrow> options \<Rightarrow> unit M" where
  "shimProperty E traced object k className opts =
     bind (gets (\<lambda>s. getDescriptor E (heap s) object k)) (\<lambda>originalDescriptor.
     case originalDescriptor of
       None \<Rightarrow> throw TypeError
     | Some p \<Rightarrow>
         if inPlace opts \<and> \<not> prop_configurable p
         then bind (dateNow E) (\<lambda>t.
              logger ((new_log t Warning)\<lparr> l_duration := Some 0,
                l_message := Some (''Unable to trace '' @ k @ '' on '' @ className @ '' in-place!'') \<rparr>))
         else (case p of
             Data x w e c \<Rightarrow>
               bind (alloc_cell x) (\<lambda>propertyValue.
               bind (alloc_function E (ValueGetter propertyValue)) (\<lambda>g.
               bind (some_if w (alloc_function E
                        (ValueSetter propertyValue traced k className opts))) (\<lambda>st.
               defineProperty traced k \<lparr> d_value = None, d_writable = None, d_get = Some g,
                 d_set = st, d_enumerable = Some e, d_configurable = Some True \<rparr>)))
           | Accessor og os e c \<Rightarrow>
               bind (some_if (truthy og) (alloc_function E
                        (AccessorGetter og traced k className opts))) (\<lambda>g.
               bind (some_if (truthy os) (alloc_function E
                        (AccessorSetter os traced k className opts))) (\<lambda>st.
               defineProperty traced k \<lparr> d_value = None, d_writable = None, d_get = g,
                 d_set = st, d_enumerable = Some e, d_configurable = Some True \<rparr>))))"

text \<open>\<open>_shimPromiseProperty\<close>\<close>

definition shimPromiseProperty ::
    "env \<Rightarrow> recur \<Rightarrow> val \<Rightarrow> val \<Rightarrow> string \<Rightarrow> string \<Rightarrow> options \<Rightarrow> unit M" where
  "shimPromiseProperty E rec traced object k className opts =
     bind (getProp E rec object k) (\<lambda>promise.
     bind (getProp E rec promise ''then'') (\<lambda>th.
     bind (alloc_function E (PromisePropResolved traced k className opts)) (\<lambda>cb1.
     bind (alloc_function E (PromisePropRejected traced k className opts)) (\<lambda>cb2.
     bind (rec (OpCall th promise [cb1, cb2])) (\<lambda>_. ret ())))))"

text \<open>\<open>_shimPropertySilent\<close>: \<open>Object.assign({}, originalDescriptor,
  {configurable: true})\<close> skips a descriptor that is \<open>null\<close>.\<close>

definition shimPropertySilent :: "env \<Rightarrow> val \<Rightarrow> val \<Rightarrow> string \<Rightarrow> options \<Rightarrow> unit M" where
  "shimPropertySilent E traced object k opts =
     (if inPlace opts then ret ()
      else bind (gets (\<lambda>s. getDescriptor E (heap s) object k)) (\<lambda>originalDescriptor.
        defineProperty traced k (case originalDescriptor of
            None \<Rightarrow> \<lparr> d_value = None, d_writable = None, d_get = None, d_set = None,
                       d_enumerable = None, d_configurable = Some True \<rparr>
          | Some p \<Rightarrow> (desc_of_prop p)\<lparr> d_configurable := Some True \<rparr>)))"

text \<open>\<open>_shimMember\<close>: every \<open>object[k]\<close> of the source is a read of its own.\<close>

definition shimMember ::
    "env \<Rightarrow> recur \<Rightarrow> val \<Rightarrow> val \<Rightarrow> string \<Rightarrow> string \<Rightarrow> options \<Rightarrow> unit M" where
  "shimMember E rec traced object k className opts =
     bind (getProp E rec object k) (\<lambda>v1.
     bind (gets (\<lambda>s. is_callable (heap s) v1)) (\<lambda>isFunction.
     if isFunction then
       (if methods opts then shimMethod E rec traced object k className opts
        else shimPropertySilent E traced object k opts)
     else
       bind (if properties opts \<and> treatPromisePropertiesAsEvents opts
             then bind (getProp E rec object k) (\<lambda>v2.
                  if truthy v2
                  then bind (getProp E rec object k) (\<lambda>v3.
                       bind (getProp E rec v3 ''then'') (\<lambda>th. ret (truthy th)))
                  else ret False)
             else ret False) (\<lambda>isPromise.
       if isPromise then shimPromiseProperty E rec traced object k className opts
       else if properties opts then shimProperty E traced object k className opts
       else shimPropertySilent E traced object k opts)))"

text \<open>\<open>_shimEventListenerProperty\<close>: \<open>console.assert\<close> has no effect, but its
  argument \<open>originalDescriptor.get && originalDescriptor.set\<close> is evaluated.\<close>

definition shimEventListenerProperty ::
    "env \<Rightarrow> recur \<Rightarrow> val \<Rightarrow> val \<Rightarrow> string \<Rightarrow> string \<Rightarrow> options \<Rightarrow> unit M" where
  "shimEventListenerProperty E rec traced object k className opts =
     (let eventName = strip_on k in
      if eventName \<in> set (skipEvents opts) then ret ()
      else
        bind (events_add E rec traced (Str eventName)) (\<lambda>_.
        bind (gets (\<lambda>s. getDescriptor E (heap s) object k)) (\<lambda>originalDescriptor.
        case originalDescriptor of
          None \<Rightarrow> throw TypeError
        | Some p \<Rightarrow>
            (let og = or_else (d_get (desc_of_prop p)) Undefined;
                 os = or_else (d_set (desc_of_prop p)) Undefined in
             bind (getProp E rec object k) (\<lambda>oldListener.
             bind (alloc_function E (ListenerPropGetter og)) (\<lambda>g.
             bind (alloc_function E
                     (ListenerPropSetter os object className eventName opts)) (\<lambda>st.
             bind (defineProperty traced k \<lparr> d_value = None, d_writable = None,
                     d_get = Some g, d_set = Some st, d_enumerable = Some True,
                     d_configurable = Some True \<rparr>) (\<lambda>_.
             setProp E rec traced k oldListener))))))))"

text \<open>\<open>_shimEventListenersDynamically\<close>\<close>

definition shimEventListenersDynamically ::
    "env \<Rightarrow> recur \<Rightarrow> val \<Rightarrow> val \<Rightarrow> string \<Rightarrow> options \<Rightarrow> unit M" where
  "shimEventListenersDynamically E rec traced object className opts =
     bind (getProp E rec object ''addEventListener'') (\<lambda>originalMethod.
     bind (alloc_function E (DynAddEventListener originalMethod traced className opts)) (\<lambda>f.
     setProp E rec traced ''addEventListener'' f))"

subsection \<open>traceObject and the propagation of return values\<close>

definition new_object :: "env \<Rightarrow> val M" where
  "new_object E =
     bind (alloc \<lparr> props = [], proto = Some (objectProto E), kind = Plain \<rparr>) (\<lambda>a. ret (Ref a))"

definition new_set :: "val M" where
  "new_set = bind (alloc \<lparr> props = [], proto = None, kind = SetObj [] \<rparr>) (\<lambda>a. ret (Ref a))"

text \<open>The list \<open>allProperties\<close> of \<open>traceObject\<close>.\<close>

definition allProperties :: "obj list \<Rightarrow> val \<Rightarrow> options \<Rightarrow> string list" where
  "allProperties h object opts =
     filter (\<lambda>k. k \<notin> set (skipProperties opts)) (forIn h object) @ extraProperties opts"

text \<open>\<open>traceObject\<close>, the block \<open>if (options.events)\<close>.\<close>

definition traceObject_events ::
    "env \<Rightarrow> recur \<Rightarrow> val \<Rightarrow> val \<Rightarrow> string \<Rightarrow> string list \<Rightarrow> options \<Rightarrow> unit M" where
  "traceObject_events E rec traced object className allProps opts =
     (if events opts
      then bind (forEach (filter startsWith_on allProps)
                  (\<lambda>k. shimEventListenerProperty E rec traced object k className opts)) (\<lambda>_.
           bind (getProp E rec object ''addEventListener'') (\<lambda>ael.
           if truthy ael
           then shimEventListenersDynamically E rec traced object className opts
           else ret ()))
      else ret ())"

text \<open>\<open>traceObject\<close>, the loop over \<open>options.extraEvents\<close>. It is a
  \<open>for ... in\<close>: \<open>eventName\<close> runs over the indices of the array.\<close>

definition traceObject_extraEvents ::
    "env \<Rightarrow> recur \<Rightarrow> val \<Rightarrow> val \<Rightarrow> string \<Rightarrow> options \<Rightarrow> unit M" where
  "traceObject_extraEvents E rec traced object className opts =
     forEach (array_forIn (extraEvents opts)) (\<lambda>eventName.
       bind (events_add E rec traced (Str eventName)) (\<lambda>_.
       bind (alloc_function E Noop) (\<lambda>noop.
       bind (shimEventListener E object noop className (Str eventName) opts) (\<lambda>listener.
       bind (getProp E rec traced ''addEventListener'') (\<lambda>ael.
       bind (rec (OpCall ael traced [Str eventName, listener])) (\<lambda>_.
       ret ()))))))"

text \<open>\<open>traceObject\<close>, from \<open>Object.setPrototypeOf\<close> to the end.\<close>

definition traceObject_finish ::
    "env \<Rightarrow> recur \<Rightarrow> val \<Rightarrow> val \<Rightarrow> string \<Rightarrow> options \<Rightarrow> val M" where
  "traceObject_finish E rec traced ctor className opts =
     bind (getProp E rec ctor ''prototype'') (\<lambda>cp.
     bind (setPrototypeOf traced cp) (\<lambda>_.
     bind (instanceof_check E rec traced ctor) (\<lambda>_.
     bind (setProp E rec traced ''__TraceAnything__'' (Bool True)) (\<lambda>_.
     bind (getId E rec traced className opts) (\<lambda>_.
     ret traced)))))"

definition traceObject :: "env \<Rightarrow> recur \<Rightarrow> val \<Rightarrow> options \<Rightarrow> val M" where
  "traceObject E rec object opts =
     bind (getProp E rec object ''__TraceAnything__'') (\<lambda>marker.
     if truthy marker then ret object
     else
       bind (getPrototypeOf E object) (\<lambda>pr.
       bind (getProp E rec pr ''constructor'') (\<lambda>ctor.
       bind (getProp E rec ctor ''name'') (\<lambda>nm.
       let className = to_str nm in
       bind (if inPlace opts then ret object else new_object E) (\<lambda>traced.
       bind (gets (\<lambda>s. allProperties (heap s) object opts)) (\<lambda>allProps.
       bind (forEach (filter (\<lambda>k. \<not> (startsWith_on k \<and> events opts)) allProps)
              (\<lambda>k. shimMember E rec traced object k className opts)) (\<lambda>_.
       bind new_set (\<lambda>evs.
       bind (setProp E rec traced ''__TraceAnythingEvents__'' evs) (\<lambda>_.
       bind (traceObject_events E rec traced object className allProps opts) (\<lambda>_.
       bind (traceObject_extraEvents E rec traced object className opts) (\<lambda>_.
       traceObject_finish E rec traced ctor className opts)))))))))))"

text \<open>\<open>_shimReturnValue\<close>. The recursion on a field goes through \<open>rec\<close>.\<close>

definition shimReturnValue :: "env \<Rightarrow> recur \<Rightarrow> val \<Rightarrow> options \<Rightarrow> val M" where
  "shimReturnValue E rec returnValue opts =
     (if is_nullish returnValue then ret returnValue
      else
        bind (getProp E rec returnValue ''__TraceAnything__'') (\<lambda>marker.
        if truthy marker then ret returnValue
        else
          bind (getPrototypeOf E returnValue) (\<lambda>pr.
          bind (getProp E rec pr ''constructor'') (\<lambda>returnType.
          bind (gets (\<lambda>s. shimmedClasses s returnType)) (\<lambda>returnTypeOptions.
          case returnTypeOptions of
            Some ropts \<Rightarrow> traceObject E rec returnValue ropts
          | None \<Rightarrow>
              bind (forEach (exploreResultFields opts) (\<lambda>k.
                      bind (hasProperty E returnValue k) (\<lambda>present.
                      if present
                      then bind (getProp E rec returnValue k) (\<lambda>v.
                           bind (rec (OpShimReturnValue v opts)) (\<lambda>v'.
                           setProp E rec returnValue k v'))
                      else ret ()))) (\<lambda>_.
              ret returnValue))))))"

subsection \<open>Promises\<close>

text \<open>
  A promise is \<open>Pending\<close>, \<open>Locked v\<close> (resolved with the thenable \<open>v\<close>, whose
  outcome it will take; the model follows it no further), \<open>Fulfilled\<close> or
  \<open>Rejected\<close>, and holds the reactions registered while it was not settled.
  Settling puts one job per reaction into \<open>jobs\<close>; a promise that is not
  \<open>Pending\<close> ignores \<open>resolve\<close> and \<open>reject\<close>.
\<close>

definition promise_at :: "obj list \<Rightarrow> addr \<Rightarrow> (pstate \<times> (val \<times> val) list) option" where
  "promise_at h p = (case obj_at h p of
       Some ob \<Rightarrow> (case kind ob of Promise st rs \<Rightarrow> Some (st, rs) | _ \<Rightarrow> None)
     | None \<Rightarrow> None)"

definition new_promise :: "env \<Rightarrow> addr M" where
  "new_promise E = alloc \<lparr> props = [], proto = Some (promiseProto E), kind = Promise Pending [] \<rparr>"

definition set_promise :: "addr \<Rightarrow> pstate \<Rightarrow> (val \<times> val) list \<Rightarrow> state \<Rightarrow> state" where
  "set_promise p st rs s = s\<lparr>heap := (heap s)[p := (heap s ! p)\<lparr>kind := Promise st rs\<rparr>]\<rparr>"

definition fulfillPromise :: "addr \<Rightarrow> val \<Rightarrow> unit M" where
  "fulfillPromise p v = modify (\<lambda>s. case promise_at (heap s) p of
       Some (Pending, rs) \<Rightarrow>
         (set_promise p (Fulfilled v) [] s)\<lparr>jobs := jobs s @ map (\<lambda>r. (fst r, Undefined, [v])) rs\<rparr>
     | _ \<Rightarrow> s)"

definition rejectPromise :: "addr \<Rightarrow> val \<Rightarrow> unit M" where
  "rejectPromise p e = modify (\<lambda>s. case promise_at (heap s) p of
       Some (Pending, rs) \<Rightarrow>
         (set_promise p (Rejected e) [] s)\<lparr>jobs := jobs s @ map (\<lambda>r. (snd r, Undefined, [e])) rs\<rparr>
     | _ \<Rightarrow> s)"

text \<open>The \<open>resolve\<close> function of a promise.\<close>

definition resolvePromise :: "env \<Rightarrow> recur \<Rightarrow> addr \<Rightarrow> val \<Rightarrow> unit M" where
  "resolvePromise E rec p v =
     bind (gets (\<lambda>s. promise_at (heap s) p)) (\<lambda>ps. case ps of
         Some (Pending, rs) \<Rightarrow>
           (if is_object v
            then try_catch
                   (bind (getProp E rec v ''then'') (\<lambda>th.
                    bind (gets (\<lambda>s. is_callable (heap s) th)) (\<lambda>c.
                    if c then modify (set_promise p (Locked v) rs)
                    else fulfillPromise p v)))
                   (\<lambda>e. rejectPromise p e)
            else fulfillPromise p v)
       | _ \<Rightarrow> ret ())"

definition nth_arg :: "val list \<Rightarrow> nat \<Rightarrow> val" where
  "nth_arg args i = (if i < length args then args ! i else Undefined)"

text \<open>\<open>Promise.prototype.then\<close>\<close>

definition call_PromiseThen :: "env \<Rightarrow> val \<Rightarrow> val list \<Rightarrow> val M" where
  "call_PromiseThen E this args = (case this of
       Ref p \<Rightarrow> bind (gets (\<lambda>s. promise_at (heap s) p)) (\<lambda>ps. case ps of
           None \<Rightarrow> throw TypeError
         | Some (st, rs) \<Rightarrow>
             bind (new_promise E) (\<lambda>d.
             bind (modify (\<lambda>s. case st of
                     Fulfilled v \<Rightarrow> s\<lparr>jobs := jobs s @ [(nth_arg args 0, Undefined, [v])]\<rparr>
                   | Rejected e \<Rightarrow> s\<lparr>jobs := jobs s @ [(nth_arg args 1, Undefined, [e])]\<rparr>
                   | _ \<Rightarrow> set_promise p st (rs @ [(nth_arg args 0, nth_arg args 1)]) s)) (\<lambda>_.
             ret (Ref d))))
     | _ \<Rightarrow> throw TypeError)"

subsection \<open>The functions the engine creates\<close>

definition call_native :: "env \<Rightarrow> nat \<Rightarrow> val \<Rightarrow> val list \<Rightarrow> val M" where
  "call_native E f this args =
     (\<lambda>s. case native E f (heap s) this args of (r, h') \<Rightarrow> (r, s\<lparr>heap := h'\<rparr>))"

text \<open>\<open>new ctor(...args)\<close> for a constructor of the application: the new object
  is the receiver, and the result unless the constructor returns an object.
  A replacement constructor returns its own result. Nothing else is
  constructed in the model.\<close>

definition construct :: "env \<Rightarrow> recur \<Rightarrow> val \<Rightarrow> val list \<Rightarrow> val M" where
  "construct E rec ctor args =
     bind (gets (\<lambda>s. closure_of (heap s) ctor)) (\<lambda>c. case c of
         Some (Native f) \<Rightarrow>
           bind (getProp E rec ctor ''prototype'') (\<lambda>pr.
           bind (alloc \<lparr> props = [],
                   proto = Some (case pr of Ref p \<Rightarrow> p | _ \<Rightarrow> objectProto E),
                   kind = Plain \<rparr>) (\<lambda>a.
           bind (call_native E f (Ref a) args) (\<lambda>r.
           ret (if is_object r then r else Ref a))))
       | Some (TracedCtor c' o') \<Rightarrow> rec (OpCall ctor Undefined args)
       | _ \<Rightarrow> throw TypeError)"

text \<open>The \<open>catch\<close> block of a shim: set \<open>threw\<close> and \<open>duration\<close> on the log as it
  is at the throw, emit it, throw the same error again.\<close>

definition catching :: "env \<Rightarrow> log \<Rightarrow> 'a M \<Rightarrow> 'a M" where
  "catching E lg m =
     try_catch m (\<lambda>error.
       bind (dateNow E) (\<lambda>t.
       bind (logger (lg\<lparr> l_result := None, l_threw := Some error,
               l_duration := Some (t - l_timestamp lg) \<rparr>)) (\<lambda>_.
       throw error)))"

text \<open>The function returned by \<open>traceClass\<close>. The one \<open>try\<close> of the source is
  written as two: until \<open>traceObject\<close> has returned the log has no instance,
  from then on it has \<open>log.instance\<close>. No error passes through both, since the
  first handler throws again outside the second.\<close>

definition call_TracedCtor :: "env \<Rightarrow> recur \<Rightarrow> val \<Rightarrow> options \<Rightarrow> val list \<Rightarrow> val M" where
  "call_TracedCtor E rec ctor opts args =
     bind (getProp E rec ctor ''name'') (\<lambda>nm.
     let className = to_str nm in
     bind (dateNow E) (\<lambda>t.
     let lg = (new_log t Constructor)\<lparr> l_className := Some className, l_args := Some args \<rparr> in
     bind (catching E lg
            (bind (construct E rec ctor args) (\<lambda>original.
             bind (traceObject E rec original opts) (\<lambda>traced.
             ret (original, traced))))) (\<lambda>(original, traced).
     catching E (lg\<lparr> l_instance := Some traced \<rparr>)
       (bind (getId E rec traced className opts) (\<lambda>i.
        bind (dateNow E) (\<lambda>t1.
        bind (logger (lg\<lparr> l_instance := Some traced, l_instanceId := Some i,
                l_result := Some original, l_duration := Some (t1 - t) \<rparr>)) (\<lambda>_.
        ret traced)))))))"

text \<open>\<open>new Promise((resolve, reject) => { returnValue.then(..., ...) })\<close>: an
  error thrown by the executor rejects the new promise.\<close>

definition newPromiseShim :: "env \<Rightarrow> recur \<Rightarrow> val \<Rightarrow> log \<Rightarrow> options \<Rightarrow> val M" where
  "newPromiseShim E rec returnValue lg opts =
     bind (new_promise E) (\<lambda>promiseShim.
     bind (try_catch
            (bind (getProp E rec returnValue ''then'') (\<lambda>th.
             bind (alloc_function E (ThenResolved lg opts promiseShim)) (\<lambda>cb1.
             bind (alloc_function E (ThenRejected lg opts promiseShim)) (\<lambda>cb2.
             bind (rec (OpCall th returnValue [cb1, cb2])) (\<lambda>_. ret ())))))
            (\<lambda>e. rejectPromise promiseShim e)) (\<lambda>_.
     ret (Ref promiseShim)))"

text \<open>The function \<open>_shimMethod\<close> puts at \<open>traced[k]\<close>. The log object is
  captured by the two callbacks as it is when they are created.\<close>

definition call_MethodShim ::
    "env \<Rightarrow> recur \<Rightarrow> val \<Rightarrow> string \<Rightarrow> string \<Rightarrow> options \<Rightarrow> val \<Rightarrow> val list \<Rightarrow> val M" where
  "call_MethodShim E rec originalMethod k className opts this args =
     bind (dateNow E) (\<lambda>t.
     bind (getId E rec this className opts) (\<lambda>i.
     let lg = (new_log t Method)\<lparr> l_instance := Some this, l_instanceId := Some i,
                l_className := Some className, l_methodName := Some k, l_args := Some args \<rparr> in
     catching E lg
       (bind (rec (OpCall originalMethod this args)) (\<lambda>returnValue.
        bind (dateNow E) (\<lambda>t1.
        let lg1 = lg\<lparr> l_result := Some returnValue, l_duration := Some (t1 - t) \<rparr> in
        if is_nullish returnValue then bind (logger lg1) (\<lambda>_. ret returnValue)
        else
          bind (getProp E rec returnValue ''then'') (\<lambda>th.
          if truthy th
          then bind (if logAsyncResultsImmediately opts then logger lg1 else ret ()) (\<lambda>_.
               newPromiseShim E rec returnValue lg1 opts)
          else bind (logger lg1) (\<lambda>_.
               shimReturnValue E rec returnValue opts)))))))"

definition call_ThenResolved ::
    "env \<Rightarrow> recur \<Rightarrow> log \<Rightarrow> options \<Rightarrow> addr \<Rightarrow> val list \<Rightarrow> val M" where
  "call_ThenResolved E rec lg opts promiseShim args =
     bind (shimReturnValue E rec (nth_arg args 0) opts) (\<lambda>asyncValue.
     bind (if \<not> logAsyncResultsImmediately opts
           then bind (dateNow E) (\<lambda>t.
                logger (lg\<lparr> l_result := Some asyncValue,
                  l_duration := Some (t - l_timestamp lg) \<rparr>))
           else ret ()) (\<lambda>_.
     bind (resolvePromise E rec promiseShim asyncValue) (\<lambda>_.
     ret Undefined)))"

definition call_ThenRejected ::
    "env \<Rightarrow> log \<Rightarrow> options \<Rightarrow> addr \<Rightarrow> val list \<Rightarrow> val M" where
  "call_ThenRejected E lg opts promiseShim args =
     (let error = nth_arg args 0 in
      bind (if \<not> logAsyncResultsImmediately opts
            then bind (dateNow E) (\<lambda>t.
                 logger (lg\<lparr> l_result := None, l_threw := Some error,
                   l_duration := Some (t - l_timestamp lg) \<rparr>))
            else ret ()) (\<lambda>_.
      bind (rejectPromise promiseShim error) (\<lambda>_.
      ret Undefined)))"

text \<open>The accessor pair of \<open>_shimProperty\<close> for a plain stored value.\<close>

definition call_ValueGetter :: "nat \<Rightarrow> val M" where
  "call_ValueGetter propertyValue =
     gets (\<lambda>s. if propertyValue < length (cells s) then cells s ! propertyValue else Undefined)"

definition call_ValueSetter ::
    "env \<Rightarrow> recur \<Rightarrow> nat \<Rightarrow> val \<Rightarrow> string \<Rightarrow> string \<Rightarrow> options \<Rightarrow> val list \<Rightarrow> val M" where
  "call_ValueSetter E rec propertyValue traced k className opts args =
     bind (dateNow E) (\<lambda>t.
     bind (getId E rec traced className opts) (\<lambda>i.
     bind (logger ((new_log t Setter)\<lparr> l_duration := Some 0, l_instance := Some traced,
             l_instanceId := Some i, l_className := Some className, l_memberName := Some k,
             l_value := Some (nth_arg args 0) \<rparr>)) (\<lambda>_.
     bind (modify (\<lambda>s. s\<lparr>cells := (cells s)[propertyValue := nth_arg args 0]\<rparr>)) (\<lambda>_.
     ret Undefined))))"

text \<open>The accessor pair of \<open>_shimProperty\<close> over an original getter and setter.\<close>

definition call_AccessorGetter ::
    "env \<Rightarrow> recur \<Rightarrow> val \<Rightarrow> val \<Rightarrow> string \<Rightarrow> string \<Rightarrow> options \<Rightarrow> val \<Rightarrow> val M" where
  "call_AccessorGetter E rec og traced k className opts this =
     bind (dateNow E) (\<lambda>t.
     bind (getId E rec traced className opts) (\<lambda>i.
     let lg = (new_log t Getter)\<lparr> l_instance := Some traced, l_instanceId := Some i,
                l_className := Some className, l_memberName := Some k \<rparr> in
     catching E lg
       (bind (rec (OpCall og this [])) (\<lambda>v.
        bind (dateNow E) (\<lambda>t1.
        bind (logger (lg\<lparr> l_result := Some v, l_duration := Some (t1 - t) \<rparr>)) (\<lambda>_.
        ret v))))))"

definition call_AccessorSetter ::
    "env \<Rightarrow> recur \<Rightarrow> val \<Rightarrow> val \<Rightarrow> string \<Rightarrow> string \<Rightarrow> options \<Rightarrow> val \<Rightarrow> val list \<Rightarrow> val M" where
  "call_AccessorSetter E rec os traced k className opts this args =
     bind (dateNow E) (\<lambda>t.
     bind (getId E rec traced className opts) (\<lambda>i.
     let lg = (new_log t Setter)\<lparr> l_instance := Some traced, l_instanceId := Some i,
                l_className := Some className, l_memberName := Some k \<rparr> in
     catching E lg
       (bind (rec (OpCall os this [nth_arg args 0])) (\<lambda>_.
        bind (dateNow E) (\<lambda>t1.
        bind (logger (lg\<lparr> l_value := Some (nth_arg args 0), l_duration := Some (t1 - t) \<rparr>)) (\<lambda>_.
        ret Undefined))))))"

text \<open>The two callbacks of \<open>_shimPromiseProperty\<close>.\<close>

definition call_PromiseProp ::
    "env \<Rightarrow> recur \<Rightarrow> bool \<Rightarrow> val \<Rightarrow> string \<Rightarrow> string \<Rightarrow> options \<Rightarrow> val list \<Rightarrow> val M" where
  "call_PromiseProp E rec resolved traced k className opts args =
     bind (dateNow E) (\<lambda>t.
     bind (getId E rec traced className opts) (\<lambda>i.
     bind (logger ((new_log t Event)\<lparr> l_duration := Some 0, l_instance := Some traced,
             l_instanceId := Some i, l_className := Some className,
             l_eventName := Some (Str (k @ (if resolved then '' Promise resolved''
                                            else '' Promise rejected''))),
             l_event := Some (ObjLit [(if resolved then ''result'' else ''threw'',
                                       nth_arg args 0)]) \<rparr>)) (\<lambda>_.
     ret Undefined)))"

text \<open>The accessor pair of \<open>_shimEventListenerProperty\<close>.\<close>

definition call_ListenerPropSetter ::
    "env \<Rightarrow> recur \<Rightarrow> val \<Rightarrow> val \<Rightarrow> string \<Rightarrow> string \<Rightarrow> options \<Rightarrow> val \<Rightarrow> val list \<Rightarrow> val M" where
  "call_ListenerPropSetter E rec os object className eventName opts this args =
     bind (if \<not> truthy (nth_arg args 0) then alloc_function E Noop
           else ret (nth_arg args 0)) (\<lambda>listener.
     bind (shimEventListener E object listener className (Str eventName) opts) (\<lambda>shim.
     bind (rec (OpCall os this [shim])) (\<lambda>_.
     ret Undefined)))"

text \<open>The function \<open>_shimEventListenersDynamically\<close> puts at
  \<open>traced.addEventListener\<close>.\<close>

definition call_DynAddEventListener ::
    "env \<Rightarrow> recur \<Rightarrow> val \<Rightarrow> val \<Rightarrow> string \<Rightarrow> options \<Rightarrow> val \<Rightarrow> val list \<Rightarrow> val M" where
  "call_DynAddEventListener E rec originalMethod traced className opts this args =
     (let eventName = nth_arg args 0 in
      bind (events_has E rec traced eventName) (\<lambda>known.
      bind (if \<not> known \<and> eventName \<notin> Str ` set (skipEvents opts)
            then bind (events_add E rec traced eventName) (\<lambda>_.
                 bind (alloc_function E Noop) (\<lambda>noop.
                 bind (shimEventListener E traced noop className eventName opts) (\<lambda>listener.
                 bind (rec (OpCall originalMethod this [eventName, listener])) (\<lambda>_.
                 ret ()))))
            else ret ()) (\<lambda>_.
      rec (OpCall originalMethod this (eventName # tl args)))))"

text \<open>The function returned by \<open>_shimEventListener\<close>: its last statement,
  which hands the event to the listener of the application.\<close>

definition forward_event :: "env \<Rightarrow> recur \<Rightarrow> val \<Rightarrow> val \<Rightarrow> val \<Rightarrow> val M" where
  "forward_event E rec listener this event =
     bind (getProp E rec listener ''handleEvent'') (\<lambda>h.
     if truthy h
     then bind (getProp E rec listener ''handleEvent'') (\<lambda>h'.
          rec (OpCall h' this [event]))
     else rec (OpCall listener this [event]))"

text \<open>The function returned by \<open>_shimEventListener\<close>.\<close>

definition call_ListenerShim ::
    "env \<Rightarrow> recur \<Rightarrow> val \<Rightarrow> val \<Rightarrow> string \<Rightarrow> val \<Rightarrow> options \<Rightarrow> propnames option
       \<Rightarrow> val \<Rightarrow> val list \<Rightarrow> val M" where
  "call_ListenerShim E rec traced listener className eventName opts corr this args =
     (let event = nth_arg args 0 in
      bind (dateNow E) (\<lambda>t.
      bind (getId E rec traced className opts) (\<lambda>i.
      let lg = (new_log t Event)\<lparr> l_duration := Some 0, l_instance := Some traced,
                 l_instanceId := Some i, l_className := Some className,
                 l_eventName := Some eventName, l_event := Some event \<rparr> in
      bind (case corr of
              Some (ManyNames names) \<Rightarrow>
                bind (extractAll E rec traced names []) (\<lambda>fs.
                ret (lg\<lparr> l_value := Some (ObjLit fs) \<rparr>))
            | Some (OneName name) \<Rightarrow>
                (if name \<noteq> []
                 then bind (extractProperty E rec traced name) (\<lambda>v.
                      ret (lg\<lparr> l_value := Some v \<rparr>))
                 else ret lg)
            | None \<Rightarrow> ret lg) (\<lambda>lg'.
      bind (logger lg') (\<lambda>_.
      forward_event E rec listener this event)))))"

subsection \<open>The interpreter\<close>

definition call_closure :: "env \<Rightarrow> recur \<Rightarrow> closure \<Rightarrow> val \<Rightarrow> val list \<Rightarrow> val M" where
  "call_closure E rec c this args = (case c of
       Native f \<Rightarrow> call_native E f this args
     | Noop \<Rightarrow> ret Undefined
     | PromiseThen \<Rightarrow> call_PromiseThen E this args
     | TracedCtor ctor opts \<Rightarrow> call_TracedCtor E rec ctor opts args
     | MethodShim om k cn opts \<Rightarrow> call_MethodShim E rec om k cn opts this args
     | ThenResolved lg opts p \<Rightarrow> call_ThenResolved E rec lg opts p args
     | ThenRejected lg opts p \<Rightarrow> call_ThenRejected E lg opts p args
     | ValueGetter cell \<Rightarrow> call_ValueGetter cell
     | ValueSetter cell traced k cn opts \<Rightarrow> call_ValueSetter E rec cell traced k cn opts args
     | AccessorGetter og traced k cn opts \<Rightarrow> call_AccessorGetter E rec og traced k cn opts this
     | AccessorSetter os traced k cn opts \<Rightarrow>
         call_AccessorSetter E rec os traced k cn opts this args
     | PromisePropResolved traced k cn opts \<Rightarrow> call_PromiseProp E rec True traced k cn opts args
     | PromisePropRejected traced k cn opts \<Rightarrow> call_PromiseProp E rec False traced k cn opts args
     | ListenerPropGetter og \<Rightarrow> rec (OpCall og this [])
     | ListenerPropSetter os object cn ev opts \<Rightarrow>
         call_ListenerPropSetter E rec os object cn ev opts this args
     | DynAddEventListener om traced cn opts \<Rightarrow>
         call_DynAddEventListener E rec om traced cn opts this args
     | ListenerShim traced listener cn ev opts corr \<Rightarrow>
         call_ListenerShim E rec traced listener cn ev opts corr this args)"

text \<open>A call \<open>f.call(this, ...args)\<close>: a \<open>TypeError\<close> when \<open>f\<close> is not a function.\<close>

definition callFunction :: "env \<Rightarrow> recur \<Rightarrow> val \<Rightarrow> val \<Rightarrow> val list \<Rightarrow> val M" where
  "callFunction E rec f this args =
     bind (gets (\<lambda>s. closure_of (heap s) f)) (\<lambda>c. case c of
         None \<Rightarrow> throw TypeError
       | Some c \<Rightarrow> call_closure E rec c this args)"

definition step :: "env \<Rightarrow> recur \<Rightarrow> recur" where
  "step E rec x = (case x of
       OpCall f this args \<Rightarrow> callFunction E rec f this args
     | OpShimReturnValue v opts \<Rightarrow> shimReturnValue E rec v opts)"

text \<open>\<open>run E n\<close> answers with \<open>n\<close> levels of nested calls; beyond them the
  outcome is \<open>Diverge\<close>.\<close>

primrec run :: "env \<Rightarrow> nat \<Rightarrow> recur" where
  "run E 0 = (\<lambda>x s. (Diverge, s))"
| "run E (Suc n) = step E (run E n)"

subsection \<open>The public operations, and what the environment does\<close>

text \<open>\<open>traceClass(ctor, options)\<close>\<close>

definition traceClass :: "env \<Rightarrow> val \<Rightarrow> options \<Rightarrow> val M" where
  "traceClass E ctor opts =
     bind (modify (\<lambda>s. s\<lparr>shimmedClasses := (shimmedClasses s)(ctor \<mapsto> opts)\<rparr>)) (\<lambda>_.
     alloc_function E (TracedCtor ctor opts))"



subsection \<open>Terms the properties are stated in, and small worlds to run them on\<close>



text \<open>A realm: the prototypes of \<open>Object\<close>, \<open>Function\<close>, \<open>Number\<close>, \<open>String\<close>,
  \<open>Boolean\<close> and \<open>Promise\<close> at the addresses 0 to 5, their constructors at 6 to
  11, \<open>Promise.prototype.then\<close> at 12; an environment over it; a world with an
  empty log and empty maps. Objects of an example start at address 13.\<close>

definition builtin_ctor :: "string \<Rightarrow> addr \<Rightarrow> closure \<Rightarrow> obj" where
  "builtin_ctor name pr c = \<lparr> props = [(''name'', Data (Str name) False False True),
       (''prototype'', Data (Ref pr) False False False)], proto = Some 1, kind = Function c \<rparr>"

definition builtin_proto :: "addr \<Rightarrow> addr option \<Rightarrow> (string \<times> property) list \<Rightarrow> obj" where
  "builtin_proto ctor pr ps =
     \<lparr> props = (''constructor'', Data (Ref ctor) True False True) # ps, proto = pr, kind = Plain \<rparr>"

definition realm_heap :: "obj list" where
  "realm_heap =
     [ builtin_proto 6 None [],
       builtin_proto 7 (Some 0) [],
       builtin_proto 8 (Some 0) [],
       builtin_proto 9 (Some 0) [],
       builtin_proto 10 (Some 0) [],
       builtin_proto 11 (Some 0) [(''then'', Data (Ref 12) True False True)],
       builtin_ctor ''Object'' 0 (Native 0),
       builtin_ctor ''Function'' 1 (Native 0),
       builtin_ctor ''Number'' 2 (Native 0),
       builtin_ctor ''String'' 3 (Native 0),
       builtin_ctor ''Boolean'' 4 (Native 0),
       builtin_ctor ''Promise'' 5 (Native 0),
       \<lparr> props = [(''name'', Data (Str ''then'') False False True)], proto = Some 1,
         kind = Function PromiseThen \<rparr> ]"

definition env0 :: env where
  "env0 = \<lparr> native = (\<lambda>f h this args. (Ret Undefined, h)), clock = (\<lambda>n. int n),
     objectProto = 0, functionProto = 1, numberProto = 2, stringProto = 3,
     booleanProto = 4, promiseProto = 5 \<rparr>"

definition world :: "obj list \<Rightarrow> state" where
  "world h = \<lparr> heap = h, cells = [], logs = [], nextGeneratedId = Map.empty,
     shimmedClasses = Map.empty, ticks = 0, jobs = [] \<rparr>"



text \<open>The log object of the replacement constructor of \<open>traceClass\<close> when it
  is created.\<close>

definition constructor_log :: "int \<Rightarrow> string \<Rightarrow> val list \<Rightarrow> log" where
  "constructor_log t className args =
     (new_log t Constructor)\<lparr> l_className := Some className, l_args := Some args \<rparr>"

text \<open>Code of the application for the examples: 1 is an \<open>addEventListener\<close>
  that keeps the listener of event \<open>e\<close> in the property \<open>listener:e\<close> of the
  receiver (a second one in \<open>listener:e+\<close>), 2 throws the string \<open>E\<close>, 3
  returns the number 3, 4 and 5 are the native getter and setter of \<open>onfoo\<close>,
  over the slot \<open>_onfoo\<close> of the receiver, 6 returns the object at address
  17; every other number returns \<open>undefined\<close>.\<close>

definition record_listener :: "obj list \<Rightarrow> val \<Rightarrow> val list \<Rightarrow> val outcome \<times> obj list" where
  "record_listener h this args = (case (this, args) of
       (Ref a, [Str e, l]) \<Rightarrow> (Ret Undefined,
          h[a := (h ! a)\<lparr>props :=
            AList.update
              (if map_of (props (h ! a)) (''listener:'' @ e) = None then ''listener:'' @ e
               else ''listener:'' @ e @ ''+'')
              (Data l True False True) (props (h ! a))\<rparr>])
     | _ \<Rightarrow> (Ret Undefined, h))"

definition read_slot :: "obj list \<Rightarrow> val \<Rightarrow> val outcome \<times> obj list" where
  "read_slot h this = (case this of
       Ref a \<Rightarrow> (Ret (case map_of (props (h ! a)) ''_onfoo'' of
                        Some (Data v w e c) \<Rightarrow> v | _ \<Rightarrow> Null), h)
     | _ \<Rightarrow> (Throw TypeError, h))"

definition write_slot :: "obj list \<Rightarrow> val \<Rightarrow> val list \<Rightarrow> val outcome \<times> obj list" where
  "write_slot h this args = (case this of
       Ref a \<Rightarrow> (Ret Undefined,
          h[a := (h ! a)\<lparr>props :=
            AList.update ''_onfoo'' (Data (nth_arg args 0) True False True) (props (h ! a))\<rparr>])
     | _ \<Rightarrow> (Throw TypeError, h))"

definition example_native :: "nat \<Rightarrow> obj list \<Rightarrow> val \<Rightarrow> val list \<Rightarrow> val outcome \<times> obj list" where
  "example_native f h this args =
     (if f = 1 then record_listener h this args
      else if f = 2 then (Throw (Str ''E''), h)
      else if f = 3 then (Ret (Num 3), h)
      else if f = 4 then read_slot h this
      else if f = 5 then write_slot h this args
      else if f = 6 then (Ret (Ref 17), h)
      else (Ret Undefined, h))"

definition env1 :: env where
  "env1 = env0\<lparr> native := example_native \<rparr>"

definition function_obj :: "string \<Rightarrow> closure \<Rightarrow> obj" where
  "function_obj name c =
     \<lparr> props = [(''name'', Data (Str name) False False True)], proto = Some 1, kind = Function c \<rparr>"

text \<open>A class \<open>Player\<close> (constructor 13, prototype 14) with the methods \<open>play\<close>,
  which throws, and \<open>load\<close>, which returns 3; an instance (17) with the field
  \<open>volume\<close>; a class \<open>Broken\<close> (18, 19) whose constructor throws.\<close>

definition player_world :: state where
  "player_world = world (realm_heap @
     [ builtin_ctor ''Player'' 14 (Native 0),
       builtin_proto 13 (Some 0) [(''play'', Data (Ref 15) True True True),
                                  (''load'', Data (Ref 16) True True True)],
       function_obj ''play'' (Native 2),
       function_obj ''load'' (Native 3),
       \<lparr> props = [(''volume'', Data (Num 5) True True True)], proto = Some 14, kind = Plain \<rparr>,
       builtin_ctor ''Broken'' 19 (Native 2),
       builtin_proto 18 (Some 0) [] ])"

text \<open>The instance traced in place with the default options: the shim of
  \<open>play\<close> is the function at address 22.\<close>

definition traced_player :: state where
  "traced_player = snd (traceObject env1 (run env1 1) (Ref 17) defaultOptions player_world)"

text \<open>\<open>traceClass\<close> called three times: on \<open>Player\<close> with \<open>inPlace: false\<close>
  (replacement constructor at address 20), on \<open>Broken\<close> (21), and on \<open>Player\<close>
  with the default options (22).\<close>

definition traced_classes :: state where
  "traced_classes = snd (traceClass env1 (Ref 13) defaultOptions
      (snd (traceClass env1 (Ref 18) defaultOptions
        (snd (traceClass env1 (Ref 13) (defaultOptions\<lparr>inPlace := False\<rparr>) player_world)))))"



text \<open>A class \<open>Element\<close> (13, 14) whose prototype has the accessor property
  \<open>onfoo\<close> (getter 15, setter 16) and a method \<open>addEventListener\<close> (17) that
  is not enumerable; an instance (18) with a field \<open>volume\<close> that is not
  enumerable; a listener of the application (19).\<close>

definition element_world :: state where
  "element_world = world (realm_heap @
     [ builtin_ctor ''Element'' 14 (Native 0),
       builtin_proto 13 (Some 0) [(''onfoo'', Accessor (Ref 15) (Ref 16) True True),
                                  (''addEventListener'', Data (Ref 17) True False True)],
       function_obj ''get onfoo'' (Native 4),
       function_obj ''set onfoo'' (Native 5),
       function_obj ''addEventListener'' (Native 1),
       \<lparr> props = [(''volume'', Data (Num 5) True False True)], proto = Some 14, kind = Plain \<rparr>,
       function_obj ''L'' (Native 0) ])"










text \<open>The element traced with \<open>extraEvents: ['play']\<close>.\<close>

definition play_opts :: options where
  "play_opts = defaultOptions\<lparr>extraEvents := [''play'']\<rparr>"

definition play_traced :: state where
  "play_traced = snd (traceObject env1 (run env1 3) (Ref 18) play_opts element_world)"

text \<open>The player traced with \<open>exploreResultFields: ['x']\<close>: the shim of \<open>load\<close>
  is the function at address 23.\<close>

definition explore_opts :: options where
  "explore_opts = defaultOptions\<lparr>exploreResultFields := [''x'']\<rparr>"

definition explore_traced :: state where
  "explore_traced = snd (traceObject env1 (run env1 1) (Ref 17) explore_opts player_world)"







section \<open>Properties\<close>

subsection \<open>Property tables\<close>












subsection \<open>Identity\<close>





subsection \<open>Computations\<close>

lemma step_call:
  "closure_of (heap s) f = Some c \<Longrightarrow>
   step E rec (OpCall f this args) s = call_closure E rec c this args s"
  by (simp add: step_def callFunction_def bind_def gets_def)

lemma catching_Throw:
  "m s = (Throw e, s') \<Longrightarrow>
   catching E lg m s = (Throw e, s'\<lparr>ticks := Suc (ticks s'), logs := logs s' @
      [lg\<lparr> l_result := None, l_threw := Some e,
         l_duration := Some (clock E (ticks s') - l_timestamp lg) \<rparr>]\<rparr>)"
  by (simp add: catching_def try_catch_def bind_def dateNow_def logger_def modify_def throw_def)


lemma fst_snd_eq: "fst x = a \<Longrightarrow> x = (a, snd x)"
  by (cases x) simp

subsection \<open>Method shim: a synchronous throw\<close>

text \<open>
  C6. Calling the function \<open>_shimMethod\<close> installed, when the identity lookup
  returns and the original method then throws \<open>e\<close>: the call throws the same
  \<open>e\<close>, and after the original has run the shim emits exactly one record, of
  type Method, with \<open>threw = e\<close> and no \<open>result\<close> field.
\<close>

theorem method_shim_rethrows:
  assumes f: "closure_of (heap s) f = Some (MethodShim originalMethod k className opts)"
    and i: "getId E (run E n) this className opts (s\<lparr>ticks := Suc (ticks s)\<rparr>) = (Ret i, s1)"
    and e: "run E n (OpCall originalMethod this args) s1 = (Throw e, s2)"
  shows "run E (Suc n) (OpCall f this args) s =
     (Throw e, s2\<lparr>ticks := Suc (ticks s2), logs := logs s2 @
        [\<lparr> l_timestamp = clock E (ticks s), l_type = Method,
            l_duration = Some (clock E (ticks s2) - clock E (ticks s)),
            l_instance = Some this, l_instanceId = Some i, l_className = Some className,
            l_methodName = Some k, l_memberName = None, l_eventName = None, l_event = None,
            l_args = Some args, l_threw = Some e, l_result = None, l_value = None,
            l_message = None \<rparr>]\<rparr>)"
proof -
  let ?lg = "(new_log (clock E (ticks s)) Method)\<lparr> l_instance := Some this, l_instanceId := Some i,
                l_className := Some className, l_methodName := Some k, l_args := Some args \<rparr>"
  have "run E (Suc n) (OpCall f this args) s =
        call_MethodShim E (run E n) originalMethod k className opts this args s"
    by (simp add: step_call[OF f] call_closure_def)
  also have "\<dots> = catching E ?lg
       (bind (run E n (OpCall originalMethod this args)) (\<lambda>returnValue.
        bind (dateNow E) (\<lambda>t1.
        let lg1 = ?lg\<lparr> l_result := Some returnValue, l_duration := Some (t1 - clock E (ticks s)) \<rparr> in
        if is_nullish returnValue then bind (logger lg1) (\<lambda>_. ret returnValue)
        else
          bind (getProp E (run E n) returnValue ''then'') (\<lambda>th.
          if truthy th
          then bind (if logAsyncResultsImmediately opts then logger lg1 else ret ()) (\<lambda>_.
               newPromiseShim E (run E n) returnValue lg1 opts)
          else bind (logger lg1) (\<lambda>_.
               shimReturnValue E (run E n) returnValue opts))))) s1"
    using i by (simp add: call_MethodShim_def bind_def dateNow_def Let_def)
  also have "\<dots> = (Throw e, s2\<lparr>ticks := Suc (ticks s2), logs := logs s2 @
      [?lg\<lparr> l_result := None, l_threw := Some e,
         l_duration := Some (clock E (ticks s2) - l_timestamp ?lg) \<rparr>]\<rparr>)"
    by (rule catching_Throw) (simp add: bind_def e)
  finally show ?thesis
    by (simp add: new_log_def)
qed

theorem method_shim_rethrows_witness:
  "fst (run env1 2 (OpCall (Ref 22) (Ref 17) [Num 1]) traced_player) = Throw (Str ''E'')
   \<and> map (\<lambda>l. (l_type l, l_methodName l, l_args l, l_threw l, l_result l))
        (logs (snd (run env1 2 (OpCall (Ref 22) (Ref 17) [Num 1]) traced_player)))
       = [(Method, Some ''play'', Some [Num 1], Some (Str ''E''), None)]"
proof -
  define s0 where "s0 = traced_player\<lparr>ticks := Suc (ticks traced_player)\<rparr>"
  define s1 where "s1 = snd (getId env1 (run env1 1) (Ref 17) ''Player'' defaultOptions s0)"
  define s2 where "s2 = snd (run env1 1 (OpCall (Ref 15) (Ref 17) [Num 1]) s1)"
  have f: "closure_of (heap traced_player) (Ref 22)
             = Some (MethodShim (Ref 15) ''play'' ''Player'' defaultOptions)"
    unfolding traced_player_def by code_simp
  have "fst (getId env1 (run env1 1) (Ref 17) ''Player'' defaultOptions s0) = Ret (Str ''Player_1'')"
    unfolding s0_def traced_player_def by code_simp
  then have i: "getId env1 (run env1 1) (Ref 17) ''Player'' defaultOptions
                  (traced_player\<lparr>ticks := Suc (ticks traced_player)\<rparr>) = (Ret (Str ''Player_1''), s1)"
    unfolding s1_def s0_def by (rule fst_snd_eq)
  have "fst (run env1 1 (OpCall (Ref 15) (Ref 17) [Num 1]) s1) = Throw (Str ''E'')"
    unfolding s1_def s0_def traced_player_def by code_simp
  then have e: "run env1 1 (OpCall (Ref 15) (Ref 17) [Num 1]) s1 = (Throw (Str ''E''), s2)"
    unfolding s2_def by (rule fst_snd_eq)
  have l: "logs s2 = []"
    unfolding s2_def s1_def s0_def traced_player_def by code_simp
  have n2: "2 = Suc 1" by simp
  show ?thesis
    unfolding n2 method_shim_rethrows[OF f i e]
    by (simp add: l)
qed

subsection \<open>traceObject on an object that is already traced\<close>

text \<open>
  C4. When \<open>object.__TraceAnything__\<close> is a stored truthy value, found on the
  object or along its prototype chain, \<open>traceObject\<close> returns the same
  reference and leaves the whole world as it is: no record is emitted, no
  member is shimmed again, no identity is assigned.
\<close>

theorem traceObject_idempotent:
  assumes "find_on E (heap s) object ''__TraceAnything__'' = Some (Data m w e c)"
    and "truthy m"
  shows "traceObject E rec object opts s = (Ret object, s)"
proof -
  from assms(1) have "\<not> is_nullish object"
    by (auto simp add: is_nullish_def find_on_def base_of_def)
  with assms show ?thesis
    by (simp add: traceObject_def getProp_def bind_def gets_def ret_def)
qed

theorem traceObject_idempotent_witness:
  "traceObject env1 (run env1 1) (Ref 17) defaultOptions traced_player = (Ret (Ref 17), traced_player)
   \<and> fst (traceObject env1 (run env1 1) (Ref 17) defaultOptions player_world) = Ret (Ref 17)"
proof -
  have m: "find_on env1 (heap traced_player) (Ref 17) ''__TraceAnything__''
             = Some (Data (Bool True) True True True)"
    unfolding traced_player_def by code_simp
  have r: "fst (traceObject env1 (run env1 1) (Ref 17) defaultOptions player_world) = Ret (Ref 17)"
    by code_simp
  from traceObject_idempotent[OF m, where rec = "run env1 1" and opts = defaultOptions] r
  show ?thesis by simp
qed


subsection \<open>The replacement constructor of traceClass\<close>



lemma call_TracedCtor_throws:
  assumes nm: "getProp E rec ctor ''name'' s = (Ret nm, s1)"
    and c: "construct E rec ctor args (s1\<lparr>ticks := Suc (ticks s1)\<rparr>) = (Throw e, s2)"
  shows "call_TracedCtor E rec ctor opts args s =
     (Throw e, s2\<lparr>ticks := Suc (ticks s2), logs := logs s2 @
        [(constructor_log (clock E (ticks s1)) (to_str nm) args)\<lparr>
            l_duration := Some (clock E (ticks s2) - clock E (ticks s1)), l_threw := Some e \<rparr>]\<rparr>)"
  using nm c
  by (simp add: call_TracedCtor_def bind_def catching_def try_catch_def dateNow_def logger_def
      modify_def throw_def Let_def new_log_def constructor_log_def)








text \<open>
  C10. When the original constructor throws \<open>e\<close>, the record the replacement
  constructor emits has the type Constructor, the class name, the arguments,
  \<open>threw = e\<close> and a duration, and neither \<open>instance\<close> nor \<open>instanceId\<close> nor
  \<open>result\<close>.
\<close>

theorem traced_ctor_failure_record:
  assumes f: "closure_of (heap s) f = Some (TracedCtor ctor opts)"
    and nm: "getProp E (run E n) ctor ''name'' s = (Ret nm, s1)"
    and c: "construct E (run E n) ctor args (s1\<lparr>ticks := Suc (ticks s1)\<rparr>) = (Throw e, s2)"
  shows "run E (Suc n) (OpCall f this args) s =
     (Throw e, s2\<lparr>ticks := Suc (ticks s2), logs := logs s2 @
        [\<lparr> l_timestamp = clock E (ticks s1), l_type = Constructor,
            l_duration = Some (clock E (ticks s2) - clock E (ticks s1)),
            l_instance = None, l_instanceId = None, l_className = Some (to_str nm),
            l_methodName = None, l_memberName = None, l_eventName = None, l_event = None,
            l_args = Some args, l_threw = Some e, l_result = None, l_value = None,
            l_message = None \<rparr>]\<rparr>)"
  by (simp add: step_call[OF f] call_closure_def call_TracedCtor_throws[OF nm c]
      constructor_log_def new_log_def)


theorem traced_ctor_failure_record_witness:
  "fst (run env1 2 (OpCall (Ref 21) Undefined [Num 7]) traced_classes) = Throw (Str ''E'')
   \<and> map (\<lambda>l. (l_type l, l_className l, l_args l, l_threw l, l_instance l, l_instanceId l, l_result l))
        (logs (snd (run env1 2 (OpCall (Ref 21) Undefined [Num 7]) traced_classes)))
       = [(Constructor, Some ''Broken'', Some [Num 7], Some (Str ''E''), None, None, None)]"
proof -
  define s1 where "s1 = snd (getProp env1 (run env1 1) (Ref 18) ''name'' traced_classes)"
  define s2 where "s2 = snd (construct env1 (run env1 1) (Ref 18) [Num 7] (s1\<lparr>ticks := Suc (ticks s1)\<rparr>))"
  have f: "closure_of (heap traced_classes) (Ref 21) = Some (TracedCtor (Ref 18) defaultOptions)"
    unfolding traced_classes_def by code_simp
  have "fst (getProp env1 (run env1 1) (Ref 18) ''name'' traced_classes) = Ret (Str ''Broken'')"
    unfolding traced_classes_def by code_simp
  then have nm: "getProp env1 (run env1 1) (Ref 18) ''name'' traced_classes = (Ret (Str ''Broken''), s1)"
    unfolding s1_def by (rule fst_snd_eq)
  have "fst (construct env1 (run env1 1) (Ref 18) [Num 7] (s1\<lparr>ticks := Suc (ticks s1)\<rparr>)) = Throw (Str ''E'')"
    unfolding s1_def traced_classes_def by code_simp
  then have c: "construct env1 (run env1 1) (Ref 18) [Num 7] (s1\<lparr>ticks := Suc (ticks s1)\<rparr>) = (Throw (Str ''E''), s2)"
    unfolding s2_def by (rule fst_snd_eq)
  have l: "logs s2 = []"
    unfolding s2_def s1_def traced_classes_def by code_simp
  have n2: "2 = Suc 1" by simp
  show ?thesis
    unfolding n2 traced_ctor_failure_record[OF f nm c]
    by (simp add: l)
qed



subsection \<open>Events and the value that goes with them\<close>










subsection \<open>Members that are not logged, and listener properties\<close>












subsection \<open>The loop over extraEvents\<close>

text \<open>
  C2 at \<open>extraEvents: ['play']\<close>: \<open>traceObject\<close> returns, the set of observed
  events holds \<open>foo\<close> (from \<open>onfoo\<close>) and \<open>0\<close>, a wrapper for the event \<open>0\<close> is
  registered through \<open>addEventListener\<close>, and nothing is registered for
  \<open>play\<close>.
\<close>

theorem extraEvents_loop_visits_indices:
  "fst (traceObject env1 (run env1 3) (Ref 18) play_opts element_world) = Ret (Ref 18)
   \<and> observed_events env1 (heap play_traced) (Ref 18) = Some [Str ''foo'', Str ''0'']
   \<and> find_prop (heap play_traced) 18 ''listener:0'' = Some (Data (Ref 27) True False True)
   \<and> closure_of (heap play_traced) (Ref 27)
       = Some (ListenerShim (Ref 18) (Ref 26) ''Element'' (Str ''0'') play_opts None)
   \<and> find_prop (heap play_traced) 18 ''listener:play'' = None"
  unfolding play_traced_def by code_simp


subsection \<open>The propagation of a primitive return value\<close>

text \<open>
  C7 at the value 3 with \<open>exploreResultFields: ['x']\<close>: \<open>_shimReturnValue\<close>
  throws a \<open>TypeError\<close> (\<open>'x' in 3\<close>). Through the shim of the method \<open>load\<close>,
  which returns 3: the caller gets the \<open>TypeError\<close>, and two Method records
  are emitted, one with \<open>result = 3\<close> and one with the error.
\<close>

theorem shimReturnValue_throws_on_primitive:
  "fst (shimReturnValue env1 (run env1 1) (Num 3) explore_opts player_world) = Throw TypeError
   \<and> fst (run env1 1 (OpCall (Ref 16) (Ref 17) []) player_world) = Ret (Num 3)
   \<and> closure_of (heap explore_traced) (Ref 23) = Some (MethodShim (Ref 16) ''load'' ''Player'' explore_opts)
   \<and> fst (run env1 2 (OpCall (Ref 23) (Ref 17) []) explore_traced) = Throw TypeError
   \<and> map (\<lambda>l. (l_type l, l_methodName l, l_result l, l_threw l))
        (logs (snd (run env1 2 (OpCall (Ref 23) (Ref 17) []) explore_traced)))
       = [(Method, Some ''load'', Some (Num 3), None), (Method, Some ''load'', None, Some TypeError)]"
  unfolding explore_traced_def by code_simp



subsection \<open>Method shim: a deferred result logged at settlement\<close>
















end
